theory Spec2Isabelle
  imports Complex_Main
begin

section \<open>JavaScript values\<close>

text \<open>
  The values \<^verbatim>\<open>setBackendAndEnvFlags\<close> can receive as \<^verbatim>\<open>flagConfig\<close> and as the value of a
  flag. An object is a plain object (its prototype is \<^verbatim>\<open>Object.prototype\<close>), given by the
  list of its own enumerable properties in the order \<^verbatim>\<open>for (... in ...)\<close> visits them; no
  value of the type is a function. Numbers are modelled as reals, with \<^verbatim>\<open>NaN\<close> apart (it is
  the one number that is not strictly equal to itself).
\<close>

datatype jsval =
    Undefined
  | Null
  | Bool bool
  | Num real
  | NaN
  | Str string
  | Obj "(string \<times> jsval) list"

type_synonym props = "(string \<times> jsval) list"

text \<open>The \<^verbatim>\<open>typeof\<close> operator.\<close>

fun typeof :: "jsval \<Rightarrow> string" where
  "typeof Undefined = ''undefined''"
| "typeof Null = ''object''"
| "typeof (Bool b) = ''boolean''"
| "typeof (Num r) = ''number''"
| "typeof NaN = ''number''"
| "typeof (Str s) = ''string''"
| "typeof (Obj ps) = ''object''"

text \<open>
  Strict equality \<^verbatim>\<open>===\<close>, which \<^verbatim>\<open>Array.prototype.indexOf\<close> compares with. \<^verbatim>\<open>NaN\<close> equals
  nothing. Objects are equal when they are the same object; the model has no object
  identities, and an object met as a flag value is never the object held in the table.
\<close>

fun strict_eq :: "jsval \<Rightarrow> jsval \<Rightarrow> bool" where
  "strict_eq NaN b = False"
| "strict_eq a NaN = False"
| "strict_eq (Obj ps) b = False"
| "strict_eq a (Obj qs) = False"
| "strict_eq a b = (a = b)"

text \<open>\<^verbatim>\<open>array.indexOf(v)\<close>: the first index holding a value strictly equal to \<^verbatim>\<open>v\<close>, or -1.\<close>

fun indexOf :: "jsval list \<Rightarrow> jsval \<Rightarrow> int" where
  "indexOf [] v = - 1"
| "indexOf (a # as) v =
     (if strict_eq a v then 0
      else (let i = indexOf as v in if i = - 1 then - 1 else i + 1))"

text \<open>\<^verbatim>\<open>object[key]\<close>: the property's value, \<^verbatim>\<open>undefined\<close> when the object has none.\<close>

definition prop_get :: "props \<Rightarrow> string \<Rightarrow> jsval" where
  "prop_get ps k = (case map_of ps k of None \<Rightarrow> Undefined | Some v \<Rightarrow> v)"

text \<open>
  Whether a value converts to a string, as a template literal converts what it
  interpolates. Every primitive does. An object is converted by its \<^verbatim>\<open>toString\<close> method,
  then by \<^verbatim>\<open>valueOf\<close>: an own \<^verbatim>\<open>toString\<close> property hides the inherited method and is not
  callable, and \<^verbatim>\<open>valueOf\<close> (own and not callable, or inherited and returning the object
  itself) gives no primitive either, so the conversion throws a \<^verbatim>\<open>TypeError\<close>.
\<close>

fun printable :: "jsval \<Rightarrow> bool" where
  "printable (Obj ps) = (map_of ps ''toString'' = None)"
| "printable v = True"

text \<open>The properties of an object value (none for a value that is not an object).\<close>

fun props_of :: "jsval \<Rightarrow> props" where
  "props_of (Obj ps) = ps"
| "props_of v = []"

text \<open>\<^verbatim>\<open>array[i]\<close>: \<^verbatim>\<open>undefined\<close> (here \<open>None\<close>) past the end of the array.\<close>

definition nth_opt :: "'a list \<Rightarrow> nat \<Rightarrow> 'a option" where
  "nth_opt xs i = (if i < length xs then Some (xs ! i) else None)"

text \<open>\<^verbatim>\<open>string.split(c)\<close> for a one-character separator: always at least one part.\<close>

fun split :: "char \<Rightarrow> string \<Rightarrow> string list" where
  "split c [] = [[]]"
| "split c (a # s) =
     (if a = c then [] # split c s
      else (case split c s of [] \<Rightarrow> [[a]] | p # ps \<Rightarrow> (a # p) # ps))"

text \<open>
  A value that may be \<^verbatim>\<open>undefined\<close>, used as a property key or inside a template string:
  \<^verbatim>\<open>undefined\<close> reads \<^verbatim>\<open>"undefined"\<close>.
\<close>

fun to_key :: "string option \<Rightarrow> string" where
  "to_key None = ''undefined''"
| "to_key (Some s) = s"

section \<open>The engine, the shared state and the effects\<close>

text \<open>
  \<^verbatim>\<open>STATE\<close> (imported from \<^verbatim>\<open>./params\<close>): the two fields \<^verbatim>\<open>util.js\<close> reads and writes.
  \<^verbatim>\<open>lastTFJSBackend\<close> is \<open>None\<close> while the property is undefined.
\<close>

record app_state =
  backend :: string
  lastTFJSBackend :: "string option"

text \<open>
  The TensorFlow.js engine is an external collaborator. Its state is what
  \<^verbatim>\<open>resetBackend\<close> reads (\<^verbatim>\<open>ENGINE.registryFactory\<close>, \<^verbatim>\<open>ENGINE.registry\<close>) and what the calls
  of \<^verbatim>\<open>util.js\<close> change: the environment flags and the active backend. A backend factory
  is an opaque value, here a number; a live backend is recorded by the factory that
  built it.
\<close>

type_synonym factory = nat

record engine =
  flags :: props
  registryFactory :: "string \<rightharpoonup> factory"
  registry :: "string \<rightharpoonup> factory"
  backendName :: "string option"

text \<open>Every call that leaves \<^verbatim>\<open>util.js\<close> with an effect, in the order it is made.\<close>

datatype effect =
    SetFlags props
  | Alert string
  | ShowBackendConfigs
  | RemoveBackend string
  | RegisterBackend string "factory option"
  | SetBackend string

text \<open>
  How an awaited \<^verbatim>\<open>tf.setBackend(name)\<close> ends: the promise rejects, or it resolves to a
  boolean, \<^verbatim>\<open>true\<close> when the backend was initialised and is now the active one, \<^verbatim>\<open>false\<close>
  when its initialisation failed.
\<close>

datatype activation = Throws | Resolves bool

text \<open>
  The world \<^verbatim>\<open>setBackendAndEnvFlags\<close> runs in. \<open>setBackendOutcome\<close> is the environment's
  answer to the activation of each backend.
\<close>

record world =
  STATE :: app_state
  ENGINE :: engine
  effects :: "effect list"
  setBackendOutcome :: "string \<Rightarrow> activation"

text \<open>
  The errors a call can end with: the four that \<^verbatim>\<open>util.js\<close> builds with \<^verbatim>\<open>new Error\<close>, the
  rejection of \<^verbatim>\<open>tf.setBackend\<close>, passed on unchanged, and the \<^verbatim>\<open>TypeError\<close> the language
  raises when a value that is not a function is called or a value cannot be converted to
  a string.
\<close>

datatype error =
    InvalidArgument string
  | UnknownFlag string
  | InvalidFlagValue string "jsval list" jsval
  | BackendNotRegistered string
  | ActivationError string
  | TypeError

type_synonym 'a result = "(error + 'a) \<times> world"

text \<open>
  The \<^verbatim>\<open>in\<close> operator on a plain object used as a dictionary. The map holds the object's
  own properties; \<^verbatim>\<open>in\<close> also finds the properties every plain object inherits from
  \<^verbatim>\<open>Object.prototype\<close>.
\<close>

definition object_prototype_keys :: "string list" where
  "object_prototype_keys =
     [''constructor'', ''__defineGetter__'', ''__defineSetter__'', ''hasOwnProperty'',
      ''__lookupGetter__'', ''__lookupSetter__'', ''isPrototypeOf'', ''propertyIsEnumerable'',
      ''toString'', ''valueOf'', ''__proto__'', ''toLocaleString'']"

definition js_in :: "string \<Rightarrow> (string \<rightharpoonup> 'a) \<Rightarrow> bool" where
  "js_in k m = (if m k = None then k \<in> set object_prototype_keys else True)"

subsection \<open>The engine's interface\<close>

text \<open>
  Modelled from the spec: the inference engine API of section 6 (TensorFlow.js, not
  under \<^verbatim>\<open>src/\<close>): a bulk setter of the environment flags, the lookup of a factory by
  name, the removal and the registration of a backend, and the activation of a backend,
  which may fail. Each call with an effect is recorded in \<open>effects\<close>. The registries are
  plain objects, and the engine tests them with \<^verbatim>\<open>in\<close> as \<^verbatim>\<open>util.js\<close> does.
\<close>

definition setFlags :: "props \<Rightarrow> world \<Rightarrow> world" where
  "setFlags ps w =
     w\<lparr>ENGINE := (ENGINE w)\<lparr>flags := ps\<rparr>, effects := effects w @ [SetFlags ps]\<rparr>"

definition findBackendFactory :: "string \<Rightarrow> world \<Rightarrow> factory option" where
  "findBackendFactory name w = registryFactory (ENGINE w) name"

text \<open>
  \<^verbatim>\<open>tf.removeBackend\<close> disposes of the live backend it finds under the name. A name that
  \<^verbatim>\<open>in\<close> finds on the registry only through the prototype (\<^verbatim>\<open>toString\<close>, say) leads it to
  a value that is no backend, and the call of its \<^verbatim>\<open>dispose\<close> throws a \<^verbatim>\<open>TypeError\<close>.
\<close>

definition removeBackend :: "string \<Rightarrow> world \<Rightarrow> unit result" where
  "removeBackend name w =
     (let w1 = w\<lparr>effects := effects w @ [RemoveBackend name]\<rparr> in
      if js_in name (registry (ENGINE w)) \<and> registry (ENGINE w) name = None
      then (Inl TypeError, w1)
      else (Inr (),
            w1\<lparr>ENGINE := (ENGINE w)
                 \<lparr>registryFactory := (registryFactory (ENGINE w))(name := None),
                  registry := (registry (ENGINE w))(name := None),
                  backendName :=
                    (if backendName (ENGINE w) = Some name then None
                     else backendName (ENGINE w))\<rparr>\<rparr>))"

definition registerBackend :: "string \<Rightarrow> factory option \<Rightarrow> world \<Rightarrow> world" where
  "registerBackend name f w =
     w\<lparr>ENGINE := (ENGINE w)
          \<lparr>registryFactory :=
             (if js_in name (registryFactory (ENGINE w)) then registryFactory (ENGINE w)
              else (registryFactory (ENGINE w))(name := f))\<rparr>,
       effects := effects w @ [RegisterBackend name f]\<rparr>"

text \<open>
  \<^verbatim>\<open>tf.setBackend\<close> returns a promise of a boolean. When it resolves to \<^verbatim>\<open>true\<close> the backend
  is live and active; when it resolves to \<^verbatim>\<open>false\<close> the backend could not be initialised
  and the registry and the active backend are as before.
\<close>

definition setBackend :: "string \<Rightarrow> world \<Rightarrow> bool result" where
  "setBackend name w =
     (let w1 = w\<lparr>effects := effects w @ [SetBackend name]\<rparr> in
      case setBackendOutcome w name of
        Throws \<Rightarrow> (Inl (ActivationError name), w1)
      | Resolves False \<Rightarrow> (Inr False, w1)
      | Resolves True \<Rightarrow>
          (Inr True,
           w1\<lparr>ENGINE := (ENGINE w1)
                \<lparr>registry :=
                   (if js_in name (registry (ENGINE w1)) then registry (ENGINE w1)
                    else (registry (ENGINE w1))(name := registryFactory (ENGINE w1) name)),
                 backendName := Some name\<rparr>\<rparr>))"

text \<open>
  Modelled from the spec: \<^verbatim>\<open>showBackendConfigs\<close> of \<^verbatim>\<open>./option_panel\<close> (not under \<^verbatim>\<open>src/\<close>),
  the UI refresh callback of section 6, a notification; and the browser's \<^verbatim>\<open>alert\<close>.
\<close>

definition showBackendConfigs :: "world \<Rightarrow> world" where
  "showBackendConfigs w = w\<lparr>effects := effects w @ [ShowBackendConfigs]\<rparr>"

definition alert :: "string \<Rightarrow> world \<Rightarrow> world" where
  "alert msg w = w\<lparr>effects := effects w @ [Alert msg]\<rparr>"

section \<open>The backend configurator\<close>

definition webgpu_message :: string where
  "webgpu_message =
     ''webgpu backend is not registered. Your browser may not support WebGPU yet. '' @
     ''To test this backend, please use a supported browser, e.g. Chrome canary with '' @
     ''--enable-unsafe-webgpu flag''"

text \<open>\<^verbatim>\<open>!!STATE.lastTFJSBackend\<close>: a string is truthy unless it is empty.\<close>

fun truthy :: "string option \<Rightarrow> bool" where
  "truthy None = False"
| "truthy (Some s) = (s \<noteq> [])"

text \<open>
  \<^verbatim>\<open>resetBackend(backendName)\<close>, lines 38 to 59. The argument is \<open>None\<close> when the caller's
  destructuring found no second part. An error of \<^verbatim>\<open>tf.removeBackend\<close> or of the awaited
  \<^verbatim>\<open>tf.setBackend\<close> ends the function where it is raised; the boolean \<^verbatim>\<open>tf.setBackend\<close>
  resolves to is discarded (line 57).
\<close>

definition resetBackend :: "string option \<Rightarrow> world \<Rightarrow> unit result" where
  "resetBackend backendName' w =
     (let name = to_key backendName' in
      if \<not> js_in name (registryFactory (ENGINE w)) then
        (if backendName' = Some ''webgpu'' then
           (let w1 = alert webgpu_message w;
                w2 = w1\<lparr>STATE := (STATE w1)
                       \<lparr>backend :=
                          (if truthy (lastTFJSBackend (STATE w1))
                           then the (lastTFJSBackend (STATE w1)) else ''tfjs-webgl'')\<rparr>\<rparr>
            in (Inr (), showBackendConfigs w2))
         else (Inl (BackendNotRegistered name), w))
      else
        (case (if js_in name (registry (ENGINE w)) then
                 (let backendFactory = findBackendFactory name w
                  in case removeBackend name w of
                       (Inl e, w1) \<Rightarrow> (Inl e, w1)
                     | (Inr u, w1) \<Rightarrow> (Inr (), registerBackend name backendFactory w1))
               else (Inr (), w)) of
           (Inl e, w1) \<Rightarrow> (Inl e, w1)
         | (Inr u, w1) \<Rightarrow>
             (case setBackend name w1 of
                (Inl e, w2) \<Rightarrow> (Inl e, w2)
              | (Inr activated, w2) \<Rightarrow>
                  (Inr (),
                   w2\<lparr>STATE := (STATE w2)\<lparr>lastTFJSBackend := Some (''tfjs-'' @ name)\<rparr>\<rparr>))))"

text \<open>
  The world in which \<^verbatim>\<open>resetBackend\<close> calls \<^verbatim>\<open>tf.setBackend\<close>, when it gets that far: after
  lines 51 to 55.
\<close>

definition before_activation :: "string \<Rightarrow> world \<Rightarrow> world" where
  "before_activation name w =
     (if js_in name (registry (ENGINE w))
      then registerBackend name (findBackendFactory name w) (snd (removeBackend name w))
      else w)"

text \<open>
  \<^verbatim>\<open>TUNABLE_FLAG_VALUE_RANGE_MAP\<close> (imported from \<^verbatim>\<open>./params\<close>) is a parameter: a plain
  object, given by the map from each of its own keys, the tunable flags, to the array of
  legal values stored under it.
\<close>

type_synonym range_map = "string \<rightharpoonup> jsval list"

text \<open>
  The validation loop, lines 88 to 99, over the keys still to visit: the first error
  thrown, if any. Line 90 tests the key with \<^verbatim>\<open>in\<close>. For a key found only through the
  prototype, line 93 reads a value that is no array and has no \<^verbatim>\<open>indexOf\<close>: calling it
  throws a \<^verbatim>\<open>TypeError\<close>. The message of lines 95 to 97 interpolates the array of legal
  values, joined element by element, and the value found; \<^verbatim>\<open>new Error\<close> is reached only
  when all of them convert to strings.
\<close>

fun check_flags :: "range_map \<Rightarrow> props \<Rightarrow> string list \<Rightarrow> error option" where
  "check_flags T flagConfig [] = None"
| "check_flags T flagConfig (flag # rest) =
     (if \<not> js_in flag T then Some (UnknownFlag flag)
      else
        (case T flag of
           None \<Rightarrow> Some TypeError
         | Some allowed \<Rightarrow>
             (if indexOf allowed (prop_get flagConfig flag) = - 1 then
                (if list_all printable allowed \<and> printable (prop_get flagConfig flag)
                 then Some (InvalidFlagValue flag allowed (prop_get flagConfig flag))
                 else Some TypeError)
              else check_flags T flagConfig rest)))"

text \<open>\<^verbatim>\<open>setBackendAndEnvFlags(flagConfig, backend)\<close>, lines 79 to 108.\<close>

definition setBackendAndEnvFlags :: "range_map \<Rightarrow> jsval \<Rightarrow> string \<Rightarrow> world \<Rightarrow> unit result" where
  "setBackendAndEnvFlags T flagConfig backend' w =
     (if flagConfig = Null \<or> flagConfig = Undefined then (Inr (), w)
      else if typeof flagConfig \<noteq> ''object'' then
        (Inl (InvalidArgument (typeof flagConfig)), w)
      else
        (let ps = props_of flagConfig in
         case check_flags T ps (map fst ps) of
           Some e \<Rightarrow> (Inl e, w)
         | None \<Rightarrow>
             (let w1 = setFlags ps w;
                  parts = split CHR ''-'' backend';
                  runtime = nth_opt parts 0;
                  backend2 = nth_opt parts 1
              in if runtime = Some ''tfjs'' then resetBackend backend2 w1
                 else (Inr (), w1))))"

text \<open>
  What the data model of the configurator calls a validated configuration: every key is
  a key of the table, and its value is found in the key's array of legal values (by
  strict equality, as \<^verbatim>\<open>indexOf\<close> looks for it).
\<close>

definition allowed_value :: "range_map \<Rightarrow> props \<Rightarrow> string \<Rightarrow> bool" where
  "allowed_value T ps k =
     (case T k of None \<Rightarrow> False
      | Some allowed \<Rightarrow> list_ex (\<lambda>a. strict_eq a (prop_get ps k)) allowed)"

definition valid_config :: "range_map \<Rightarrow> props \<Rightarrow> bool" where
  "valid_config T ps = list_all (allowed_value T ps) (map fst ps)"

section \<open>The overlay renderer\<close>

text \<open>
  A face carries the keypoints the landmark model found; \<^verbatim>\<open>drawResults\<close> reads the
  \<^verbatim>\<open>x\<close> and \<^verbatim>\<open>y\<close> of each (the fields \<open>kp_x\<close> and \<open>kp_y\<close>). Coordinates are JavaScript
  numbers, modelled as reals. \<open>image\<close> is the shared overlay image \<^verbatim>\<open>img\<close> of line 141:
  the two properties the renderer polls. The canvas context is the list of the calls
  made on it, oldest first.
\<close>

record keypoint =
  kp_x :: real
  kp_y :: real

record face =
  keypoints :: "keypoint list"

record image =
  complete :: bool
  naturalWidth :: nat

datatype canvas_op =
    DrawImage real real real real
  | BeginPath
  | Arc real real real real real
  | Fill

type_synonym ctx = "canvas_op list"

type_synonym point = "real \<times> real"

text \<open>
  The local constants of the \<^verbatim>\<open>forEach\<close> callback, lines 195 to 208, as functions of the
  two eye points.
\<close>

definition centerX :: "point \<Rightarrow> point \<Rightarrow> real" where
  "centerX leftEye rightEye = (fst leftEye + fst rightEye) / 2"

definition centerY :: "point \<Rightarrow> point \<Rightarrow> real" where
  "centerY leftEye rightEye = (snd leftEye + snd rightEye) / 2"

definition eyeDistance :: "point \<Rightarrow> point \<Rightarrow> real" where
  "eyeDistance leftEye rightEye =
     sqrt ((fst rightEye - fst leftEye) ^ 2 + (snd rightEye - snd leftEye) ^ 2)"

definition glassesWidth :: "point \<Rightarrow> point \<Rightarrow> real" where
  "glassesWidth leftEye rightEye = eyeDistance leftEye rightEye * 3"

definition glassesHeight :: "point \<Rightarrow> point \<Rightarrow> real" where
  "glassesHeight leftEye rightEye = glassesWidth leftEye rightEye / 2"

definition glassesX :: "point \<Rightarrow> point \<Rightarrow> real" where
  "glassesX leftEye rightEye = centerX leftEye rightEye - glassesWidth leftEye rightEye / 1.7"

definition glassesY :: "point \<Rightarrow> point \<Rightarrow> real" where
  "glassesY leftEye rightEye = centerY leftEye rightEye - glassesHeight leftEye rightEye / 2"

text \<open>
  The callback of \<^verbatim>\<open>faces.forEach\<close>, lines 154 to 288, on one face. \<^verbatim>\<open>keypoints[1]\<close> and
  \<^verbatim>\<open>keypoints[2]\<close> are \<^verbatim>\<open>undefined\<close> past the end of the array; an array of two numbers is
  always truthy. The block under \<^verbatim>\<open>if (boundingBox)\<close> is commented out as a whole, and the
  body of \<^verbatim>\<open>if (showKeypoints)\<close> holds comments only.
\<close>

definition draw_face :: "image \<Rightarrow> bool \<Rightarrow> bool \<Rightarrow> ctx \<Rightarrow> face \<Rightarrow> ctx" where
  "draw_face img boundingBox showKeypoints ctx face =
     (let keypoints' = map (\<lambda>keypoint. (kp_x keypoint, kp_y keypoint)) (keypoints face);
          leftEye = nth_opt keypoints' 1;
          rightEye = nth_opt keypoints' 2;
          ctx1 =
            (case (leftEye, rightEye) of
               (Some l, Some r) \<Rightarrow>
                 (if complete img \<and> naturalWidth img > 0 then
                    ctx @ [DrawImage (glassesX l r) (glassesY l r)
                                     (glassesWidth l r) (glassesHeight l r)]
                  else
                    ctx @ [BeginPath,
                           Arc (fst l) (snd l) 3 0 (2 * pi),
                           Arc (fst r) (snd r) 3 0 (2 * pi),
                           Fill])
             | _ \<Rightarrow> ctx)
      in if showKeypoints then ctx1 else ctx1)"

text \<open>\<^verbatim>\<open>drawResults(ctx, faces, boundingBox, showKeypoints)\<close>, lines 153 to 289.\<close>

definition drawResults :: "image \<Rightarrow> ctx \<Rightarrow> face list \<Rightarrow> bool \<Rightarrow> bool \<Rightarrow> ctx" where
  "drawResults img ctx faces boundingBox showKeypoints =
     foldl (draw_face img boundingBox showKeypoints) ctx faces"

section \<open>Concrete inputs\<close>

text \<open>
  A table with two of the flags of the demo, an engine with a live \<^verbatim>\<open>webgl\<close> backend, an
  engine where activating \<^verbatim>\<open>webgl\<close> throws, an engine where it resolves to \<^verbatim>\<open>false\<close>, and
  faces with and without the right-eye keypoint.
\<close>

definition example_table :: range_map where
  "example_table =
     map_of [(''WEBGL_PACK'', [Bool True, Bool False]),
             (''WEBGL_FLUSH_THRESHOLD'', [Num (- 1), Num 0, Num 0.25, Num 0.5])]"

definition example_world :: world where
  "example_world =
     \<lparr>STATE = \<lparr>backend = ''tfjs-webgl'', lastTFJSBackend = None\<rparr>,
      ENGINE = \<lparr>flags = [], registryFactory = map_of [(''webgl'', 7)],
                registry = map_of [(''webgl'', 7)], backendName = Some ''webgl''\<rparr>,
      effects = [],
      setBackendOutcome = (\<lambda>name. Resolves True)\<rparr>"



definition example_face :: face where
  "example_face =
     \<lparr>keypoints = [\<lparr>kp_x = 25, kp_y = 40\<rparr>, \<lparr>kp_x = 10, kp_y = 10\<rparr>, \<lparr>kp_x = 30, kp_y = 10\<rparr>]\<rparr>"

definition short_face :: face where
  "short_face = \<lparr>keypoints = [\<lparr>kp_x = 25, kp_y = 40\<rparr>, \<lparr>kp_x = 10, kp_y = 10\<rparr>]\<rparr>"

definition unloaded_image :: image where
  "unloaded_image = \<lparr>complete = False, naturalWidth = 0\<rparr>"

section \<open>Properties of the configurator\<close>

subsection \<open>Lookup and validation\<close>


lemma indexOf_ge: "- 1 \<le> indexOf xs v"
  by (induction xs) (auto simp: Let_def)

lemma indexOf_none_iff: "indexOf xs v = - 1 \<longleftrightarrow> \<not> list_ex (\<lambda>a. strict_eq a v) xs"
proof (induction xs)
  case Nil
  then show ?case by simp
next
  case (Cons a xs)
  have "indexOf xs v + 1 \<noteq> - 1" using indexOf_ge [of xs v] by arith
  with Cons show ?case by (auto simp: Let_def)
qed

lemma js_in_own: "m k = Some v \<Longrightarrow> js_in k m"
  by (simp add: js_in_def)

lemma js_in_plain:
  "k \<notin> set object_prototype_keys \<Longrightarrow> js_in k m \<longleftrightarrow> m k \<noteq> None"
  by (simp add: js_in_def)

lemma plain_names [simp]:
  "''webgl'' \<notin> set object_prototype_keys"
  "''webgpu'' \<notin> set object_prototype_keys"
  "''wasm'' \<notin> set object_prototype_keys"
  "''foo'' \<notin> set object_prototype_keys"
  "''BOGUS'' \<notin> set object_prototype_keys"
  "''toString'' \<in> set object_prototype_keys"
  by (simp_all add: object_prototype_keys_def)

text \<open>A key that passes both checks lets the loop go on.\<close>

lemma check_flags_pass:
  "allowed_value T ps k \<Longrightarrow> check_flags T ps (k # ks) = check_flags T ps ks"
  by (auto simp: allowed_value_def indexOf_none_iff js_in_def split: option.splits)

lemma check_flags_prefix:
  "list_all (allowed_value T ps) pre \<Longrightarrow> check_flags T ps (pre @ ks) = check_flags T ps ks"
  by (induction pre) (simp_all add: check_flags_pass del: check_flags.simps)



lemma check_flags_all_allowed:
  "list_all (allowed_value T ps) ks \<Longrightarrow> check_flags T ps ks = None"
  using check_flags_prefix [of T ps ks "[]"] by simp

lemma check_flags_valid: "valid_config T ps \<Longrightarrow> check_flags T ps (map fst ps) = None"
  by (simp add: valid_config_def check_flags_all_allowed)

lemma check_flags_error:
  "check_flags T ps ks = Some e \<Longrightarrow>
     (\<exists>f. e = UnknownFlag f) \<or> (\<exists>f r v. e = InvalidFlagValue f r v) \<or> e = TypeError"
  by (induction ks) (auto split: option.splits if_splits)


lemma sbe_object:
  "setBackendAndEnvFlags T (Obj ps) b w =
     (case check_flags T ps (map fst ps) of
        Some e \<Rightarrow> (Inl e, w)
      | None \<Rightarrow>
          (if nth_opt (split CHR ''-'' b) 0 = Some ''tfjs''
           then resetBackend (nth_opt (split CHR ''-'' b) 1) (setFlags ps w)
           else (Inr (), setFlags ps w)))"
  by (simp add: setBackendAndEnvFlags_def Let_def split: option.splits)

lemma split_tfjs_webgl [simp]: "split CHR ''-'' ''tfjs-webgl'' = [''tfjs'', ''webgl'']"
  by simp

lemma split_tfjs_webgpu [simp]: "split CHR ''-'' ''tfjs-webgpu'' = [''tfjs'', ''webgpu'']"
  by simp

lemma split_tfjs_foo [simp]: "split CHR ''-'' ''tfjs-foo'' = [''tfjs'', ''foo'']"
  by simp

subsection \<open>The reset, path by path\<close>

lemma resetBackend_unregistered:
  "\<not> js_in (to_key bn) (registryFactory (ENGINE w)) \<Longrightarrow>
   resetBackend bn w =
     (if bn = Some ''webgpu'' then
        (Inr (),
         w\<lparr>STATE := (STATE w)
              \<lparr>backend :=
                 (if truthy (lastTFJSBackend (STATE w))
                  then the (lastTFJSBackend (STATE w)) else ''tfjs-webgl'')\<rparr>,
           effects := effects w @ [Alert webgpu_message, ShowBackendConfigs]\<rparr>)
      else (Inl (BackendNotRegistered (to_key bn)), w))"
  by (simp add: resetBackend_def Let_def alert_def showBackendConfigs_def)

lemma before_activation_STATE [simp]: "STATE (before_activation name w) = STATE w"
  by (simp add: before_activation_def registerBackend_def removeBackend_def Let_def)

lemma before_activation_outcome [simp]:
  "setBackendOutcome (before_activation name w) = setBackendOutcome w"
  by (simp add: before_activation_def registerBackend_def removeBackend_def Let_def)

lemma setBackend_STATE [simp]: "STATE (snd (setBackend name w)) = STATE w"
  by (cases "setBackendOutcome w name")
     (simp_all add: setBackend_def Let_def split: bool.splits)

lemma setBackend_effects [simp]:
  "effects (snd (setBackend name w)) = effects w @ [SetBackend name]"
  by (cases "setBackendOutcome w name")
     (simp_all add: setBackend_def Let_def split: bool.splits)

lemma setBackend_fst:
  "fst (setBackend name w) =
     (case setBackendOutcome w name of
        Throws \<Rightarrow> Inl (ActivationError name)
      | Resolves ok \<Rightarrow> Inr ok)"
  by (cases "setBackendOutcome w name")
     (simp_all add: setBackend_def Let_def split: bool.splits)

lemma resetBackend_registered:
  assumes "js_in (to_key bn) (registryFactory (ENGINE w))"
  shows "resetBackend bn w =
     (if js_in (to_key bn) (registry (ENGINE w)) \<and> registry (ENGINE w) (to_key bn) = None
      then (Inl TypeError, w\<lparr>effects := effects w @ [RemoveBackend (to_key bn)]\<rparr>)
      else
        (case setBackendOutcome w (to_key bn) of
           Throws \<Rightarrow>
             (Inl (ActivationError (to_key bn)),
              snd (setBackend (to_key bn) (before_activation (to_key bn) w)))
         | Resolves ok \<Rightarrow>
             (Inr (),
              (snd (setBackend (to_key bn) (before_activation (to_key bn) w)))
                \<lparr>STATE := (STATE w)\<lparr>lastTFJSBackend := Some (''tfjs-'' @ to_key bn)\<rparr>\<rparr>)))"
proof (cases "js_in (to_key bn) (registry (ENGINE w))")
  case live: True
  show ?thesis
  proof (cases "registry (ENGINE w) (to_key bn) = None")
    case True
    with live assms show ?thesis
      by (simp add: resetBackend_def Let_def removeBackend_def)
  next
    case False
    have rm: "fst (removeBackend (to_key bn) w) = Inr ()"
      using False by (simp add: removeBackend_def Let_def)
    obtain w1 where w1: "removeBackend (to_key bn) w = (Inr (), w1)"
      using rm by (cases "removeBackend (to_key bn) w") auto
    let ?w2 = "registerBackend (to_key bn) (findBackendFactory (to_key bn) w) w1"
    have b: "before_activation (to_key bn) w = ?w2"
      using live w1 by (simp add: before_activation_def)
    obtain r w3 where s: "setBackend (to_key bn) ?w2 = (r, w3)"
      by (cases "setBackend (to_key bn) ?w2") auto
    have r: "r = (case setBackendOutcome w (to_key bn) of
                    Throws \<Rightarrow> Inl (ActivationError (to_key bn)) | Resolves ok \<Rightarrow> Inr ok)"
      using setBackend_fst [of "to_key bn" ?w2] s
        before_activation_outcome [of "to_key bn" w] b by simp
    have st: "STATE w3 = STATE w"
      using setBackend_STATE [of "to_key bn" ?w2] s before_activation_STATE [of "to_key bn" w] b
      by simp
    show ?thesis
      using live False assms w1 s r st b
      by (cases "setBackendOutcome w (to_key bn)")
         (simp_all add: resetBackend_def Let_def)
  qed
next
  case False
  obtain r w3 where s: "setBackend (to_key bn) w = (r, w3)"
    by (cases "setBackend (to_key bn) w") auto
  have r: "r = (case setBackendOutcome w (to_key bn) of
                  Throws \<Rightarrow> Inl (ActivationError (to_key bn)) | Resolves ok \<Rightarrow> Inr ok)"
    using setBackend_fst [of "to_key bn" w] s by simp
  have st: "STATE w3 = STATE w"
    using setBackend_STATE [of "to_key bn" w] s by simp
  show ?thesis
    using False assms s r st
    by (cases "setBackendOutcome w (to_key bn)")
       (simp_all add: resetBackend_def Let_def before_activation_def)
qed

lemma resetBackend_error:
  assumes "resetBackend bn w = (Inl e, w')"
  shows "(e = BackendNotRegistered (to_key bn) \<and> w' = w) \<or> e = ActivationError (to_key bn) \<or>
         e = TypeError"
proof (cases "js_in (to_key bn) (registryFactory (ENGINE w))")
  case True
  with assms show ?thesis
    by (auto simp: resetBackend_registered split: if_splits activation.splits)
next
  case False
  with assms show ?thesis
    by (auto simp: resetBackend_unregistered split: if_splits)
qed

subsection \<open>Unknown flags\<close>




text \<open>
  A key the table only inherits is not rejected by line 90 either: with
  \<^verbatim>\<open>{toString: true}\<close> the test \<^verbatim>\<open>'toString' in TUNABLE_FLAG_VALUE_RANGE_MAP\<close> holds and line
  93 throws a \<^verbatim>\<open>TypeError\<close>.
\<close>

theorem inherited_key_type_error:
  "example_table ''toString'' = None \<and>
   setBackendAndEnvFlags example_table (Obj [(''toString'', Bool True)]) ''tfjs-webgl''
       example_world = (Inl TypeError, example_world)"
  by (simp add: sbe_object js_in_def example_table_def)

subsection \<open>Values outside the legal range\<close>




subsection \<open>Errors and the state they leave\<close>

text \<open>
  Claim C3, as the code has it. When \<^verbatim>\<open>setBackendAndEnvFlags\<close> ends with \<^verbatim>\<open>InvalidArgument\<close>,
  \<^verbatim>\<open>UnknownFlag\<close> or \<^verbatim>\<open>InvalidFlagValue\<close>, nothing has changed: the environment flags, the
  backend registry, the active backend and \<^verbatim>\<open>STATE\<close> are as before the call. When it ends
  with \<^verbatim>\<open>BackendNotRegistered\<close>, the registry, the active backend and \<^verbatim>\<open>STATE\<close> are as
  before, but \<^verbatim>\<open>tf.env().setFlags(flagConfig)\<close> has already run: the environment flags are
  those of \<^verbatim>\<open>flagConfig\<close>.
\<close>

theorem validation_errors_before_mutation:
  assumes "setBackendAndEnvFlags T cfg b w = (Inl e, w')"
  shows "case e of
           InvalidArgument t \<Rightarrow> w' = w
         | UnknownFlag f \<Rightarrow> w' = w
         | InvalidFlagValue f r v \<Rightarrow> w' = w
         | BackendNotRegistered n \<Rightarrow>
             STATE w' = STATE w \<and>
             registryFactory (ENGINE w') = registryFactory (ENGINE w) \<and>
             registry (ENGINE w') = registry (ENGINE w) \<and>
             backendName (ENGINE w') = backendName (ENGINE w) \<and>
             flags (ENGINE w') = props_of cfg \<and>
             effects w' = effects w @ [SetFlags (props_of cfg)]
         | ActivationError n \<Rightarrow> True
         | TypeError \<Rightarrow> True"
proof (cases "check_flags T (props_of cfg) (map fst (props_of cfg))")
  case (Some e')
  with assms have "(e = InvalidArgument (typeof cfg) \<or> e = e') \<and> w' = w"
    by (auto simp: setBackendAndEnvFlags_def Let_def split: if_splits)
  with check_flags_error [OF Some] show ?thesis by auto
next
  case None
  show ?thesis
  proof (cases "typeof cfg = ''object''")
    case True
    with assms None have
      r: "nth_opt (split CHR ''-'' b) 0 = Some ''tfjs''"
         "resetBackend (nth_opt (split CHR ''-'' b) 1) (setFlags (props_of cfg) w) = (Inl e, w')"
      by (auto simp: setBackendAndEnvFlags_def Let_def split: if_splits)
    from resetBackend_error [OF r(2)] show ?thesis
      by (auto simp: setFlags_def)
  next
    case False
    with assms show ?thesis
      by (auto simp: setBackendAndEnvFlags_def Let_def split: if_splits)
  qed
qed

theorem validation_errors_before_mutation_witness:
  "setBackendAndEnvFlags example_table (Obj [(''WEBGL_PACK'', Bool False)]) ''tfjs-foo'' example_world =
     (Inl (BackendNotRegistered ''foo''), setFlags [(''WEBGL_PACK'', Bool False)] example_world) \<and>
   STATE (setFlags [(''WEBGL_PACK'', Bool False)] example_world) = STATE example_world \<and>
   registry (ENGINE (setFlags [(''WEBGL_PACK'', Bool False)] example_world)) =
     registry (ENGINE example_world) \<and>
   backendName (ENGINE (setFlags [(''WEBGL_PACK'', Bool False)] example_world)) =
     backendName (ENGINE example_world)"
proof -
  have run: "setBackendAndEnvFlags example_table (Obj [(''WEBGL_PACK'', Bool False)]) ''tfjs-foo''
      example_world =
     (Inl (BackendNotRegistered ''foo''), setFlags [(''WEBGL_PACK'', Bool False)] example_world)"
    by (simp add: sbe_object example_table_def prop_get_def nth_opt_def
        resetBackend_unregistered js_in_def setFlags_def example_world_def)
  from validation_errors_before_mutation [OF run] run show ?thesis by simp
qed

text \<open>
  The claim as first stated has all four errors raised before any change. The check of
  the backend name stands in \<^verbatim>\<open>resetBackend\<close>, which line 106 calls after line 101 has set
  the flags: with \<^verbatim>\<open>{WEBGL_PACK: false}\<close> and the unregistered backend \<^verbatim>\<open>"tfjs-foo"\<close> the
  call ends with \<^verbatim>\<open>BackendNotRegistered\<close> and the flags have changed.
\<close>

theorem backend_error_after_setFlags_counterexample:
  "fst (setBackendAndEnvFlags example_table (Obj [(''WEBGL_PACK'', Bool False)]) ''tfjs-foo''
         example_world) = Inl (BackendNotRegistered ''foo'') \<and>
   flags (ENGINE (snd (setBackendAndEnvFlags example_table (Obj [(''WEBGL_PACK'', Bool False)])
         ''tfjs-foo'' example_world))) = [(''WEBGL_PACK'', Bool False)] \<and>
   flags (ENGINE example_world) = []"
  by (simp add: sbe_object example_table_def prop_get_def nth_opt_def
      resetBackend_unregistered js_in_def setFlags_def example_world_def)

subsection \<open>The WebGPU fallback\<close>

text \<open>
  Claim C4. With a configuration that passes validation and the backend \<^verbatim>\<open>"tfjs-webgpu"\<close>,
  on an engine where \<^verbatim>\<open>"webgpu"\<close> is not a registered factory, the call does not raise. It
  sets \<^verbatim>\<open>STATE.backend\<close> to the last recorded tfjs backend when there is one (a truthy
  \<^verbatim>\<open>STATE.lastTFJSBackend\<close>) and to \<^verbatim>\<open>"tfjs-webgl"\<close> otherwise, and calls \<^verbatim>\<open>showBackendConfigs\<close>
  exactly once. Apart from the flags set at line 101 the engine is untouched: no backend
  is removed, registered or activated.
\<close>

theorem webgpu_fallback:
  assumes "valid_config T ps" and "\<not> js_in ''webgpu'' (registryFactory (ENGINE w))"
  shows "setBackendAndEnvFlags T (Obj ps) ''tfjs-webgpu'' w =
     (Inr (),
      w\<lparr>STATE := (STATE w)
           \<lparr>backend :=
              (case lastTFJSBackend (STATE w) of
                 None \<Rightarrow> ''tfjs-webgl''
               | Some s \<Rightarrow> if s = [] then ''tfjs-webgl'' else s)\<rparr>,
        ENGINE := (ENGINE w)\<lparr>flags := ps\<rparr>,
        effects := effects w @ [SetFlags ps, Alert webgpu_message, ShowBackendConfigs]\<rparr>)"
proof -
  have "\<not> js_in (to_key (Some ''webgpu'')) (registryFactory (ENGINE (setFlags ps w)))"
    using assms(2) by (simp add: setFlags_def)
  from resetBackend_unregistered [OF this] show ?thesis
    by (cases "lastTFJSBackend (STATE w)")
       (simp_all add: sbe_object check_flags_valid [OF assms(1)] nth_opt_def setFlags_def)
qed

theorem webgpu_fallback_witness:
  "valid_config example_table [(''WEBGL_PACK'', Bool False)] \<and>
   setBackendAndEnvFlags example_table (Obj [(''WEBGL_PACK'', Bool False)]) ''tfjs-webgpu''
       example_world =
     (Inr (),
      example_world
        \<lparr>STATE := \<lparr>backend = ''tfjs-webgl'', lastTFJSBackend = None\<rparr>,
         ENGINE := (ENGINE example_world)\<lparr>flags := [(''WEBGL_PACK'', Bool False)]\<rparr>,
         effects := [SetFlags [(''WEBGL_PACK'', Bool False)], Alert webgpu_message,
                     ShowBackendConfigs]\<rparr>)"
proof -
  have v: "valid_config example_table [(''WEBGL_PACK'', Bool False)]"
    by (simp add: valid_config_def allowed_value_def example_table_def prop_get_def)
  have u: "\<not> js_in ''webgpu'' (registryFactory (ENGINE example_world))"
    by (simp add: js_in_def example_world_def)
  from webgpu_fallback [OF v u] v show ?thesis
    by (simp add: example_world_def)
qed

subsection \<open>Resetting a live backend\<close>

text \<open>
  Claim C5. With a configuration that passes validation and the backend \<^verbatim>\<open>"tfjs-webgl"\<close>,
  on an engine where \<^verbatim>\<open>"webgl"\<close> is a registered factory and a live registry entry, the
  calls made after \<^verbatim>\<open>setFlags\<close> are, in this order: remove \<^verbatim>\<open>"webgl"\<close>, register it again with
  the factory that was stored for it, activate it. Afterwards \<^verbatim>\<open>"webgl"\<close> is registered
  with that factory. The call ends with the error of \<^verbatim>\<open>tf.setBackend\<close> when that throws
  and without an error when it resolves; when it resolves to \<^verbatim>\<open>true\<close>, \<^verbatim>\<open>"webgl"\<close> is the
  active backend.
\<close>

theorem webgl_reset_order:
  assumes "valid_config T ps"
    and "registryFactory (ENGINE w) ''webgl'' = Some f"
    and "js_in ''webgl'' (registry (ENGINE w))"
  shows "effects (snd (setBackendAndEnvFlags T (Obj ps) ''tfjs-webgl'' w)) =
           effects w @ [SetFlags ps, RemoveBackend ''webgl'', RegisterBackend ''webgl'' (Some f),
                        SetBackend ''webgl''] \<and>
         registryFactory (ENGINE (snd (setBackendAndEnvFlags T (Obj ps) ''tfjs-webgl'' w)))
           ''webgl'' = Some f \<and>
         (case setBackendOutcome w ''webgl'' of
            Throws \<Rightarrow>
              fst (setBackendAndEnvFlags T (Obj ps) ''tfjs-webgl'' w) =
                Inl (ActivationError ''webgl'')
          | Resolves ok \<Rightarrow>
              fst (setBackendAndEnvFlags T (Obj ps) ''tfjs-webgl'' w) = Inr () \<and>
              (ok \<longrightarrow>
                 backendName (ENGINE (snd (setBackendAndEnvFlags T (Obj ps) ''tfjs-webgl'' w))) =
                   Some ''webgl''))"
proof -
  let ?w1 = "setFlags ps w"
  have reg: "js_in (to_key (Some ''webgl'')) (registryFactory (ENGINE ?w1))"
    using assms(2) by (simp add: setFlags_def js_in_def)
  from assms(3) obtain i where i: "registry (ENGINE w) ''webgl'' = Some i"
    by (auto simp: js_in_plain)
  have live: "registry (ENGINE ?w1) ''webgl'' = Some i"
    using i by (simp add: setFlags_def)
  have run: "setBackendAndEnvFlags T (Obj ps) ''tfjs-webgl'' w = resetBackend (Some ''webgl'') ?w1"
    by (simp add: sbe_object check_flags_valid [OF assms(1)] nth_opt_def)
  have prep: "before_activation ''webgl'' ?w1 =
      w\<lparr>ENGINE := (ENGINE w)
           \<lparr>flags := ps,
            registryFactory := (registryFactory (ENGINE w))(''webgl'' \<mapsto> f),
            registry := (registry (ENGINE w))(''webgl'' := None),
            backendName :=
              (if backendName (ENGINE w) = Some ''webgl'' then None else backendName (ENGINE w))\<rparr>,
         effects := effects w @ [SetFlags ps, RemoveBackend ''webgl'',
                                 RegisterBackend ''webgl'' (Some f)]\<rparr>"
    using live assms(2)
    by (simp add: before_activation_def registerBackend_def removeBackend_def
        findBackendFactory_def setFlags_def js_in_def Let_def)
  have own: "\<not> (js_in (to_key (Some ''webgl'')) (registry (ENGINE ?w1)) \<and>
                 registry (ENGINE ?w1) (to_key (Some ''webgl'')) = None)"
    using live by simp
  have out: "setBackendOutcome ?w1 ''webgl'' = setBackendOutcome w ''webgl''"
    by (simp add: setFlags_def)
  show ?thesis
    unfolding run resetBackend_registered [OF reg] if_not_P [OF own] to_key.simps prep out
    by (cases "setBackendOutcome w ''webgl''")
       (simp_all add: setBackend_def Let_def js_in_def split: bool.splits)
qed

theorem webgl_reset_order_witness:
  "valid_config example_table [(''WEBGL_PACK'', Bool False)] \<and>
   js_in ''webgl'' (registry (ENGINE example_world)) \<and>
   effects (snd (setBackendAndEnvFlags example_table (Obj [(''WEBGL_PACK'', Bool False)])
       ''tfjs-webgl'' example_world)) =
     [SetFlags [(''WEBGL_PACK'', Bool False)], RemoveBackend ''webgl'',
      RegisterBackend ''webgl'' (Some 7), SetBackend ''webgl''] \<and>
   fst (setBackendAndEnvFlags example_table (Obj [(''WEBGL_PACK'', Bool False)])
       ''tfjs-webgl'' example_world) = Inr () \<and>
   backendName (ENGINE (snd (setBackendAndEnvFlags example_table
       (Obj [(''WEBGL_PACK'', Bool False)]) ''tfjs-webgl'' example_world))) = Some ''webgl''"
proof -
  have v: "valid_config example_table [(''WEBGL_PACK'', Bool False)]"
    by (simp add: valid_config_def allowed_value_def example_table_def prop_get_def)
  have f: "registryFactory (ENGINE example_world) ''webgl'' = Some 7"
    by (simp add: example_world_def)
  have l: "js_in ''webgl'' (registry (ENGINE example_world))"
    by (simp add: js_in_def example_world_def)
  have o: "setBackendOutcome example_world ''webgl'' = Resolves True"
    by (simp add: example_world_def)
  from webgl_reset_order [OF v f l] v l o show ?thesis
    by (simp add: example_world_def)
qed

subsection \<open>No configuration\<close>

text \<open>
  Claim C6. For every backend string, \<^verbatim>\<open>setBackendAndEnvFlags(null, backend)\<close> returns
  without raising and leaves the flags, the registry, the active backend and \<^verbatim>\<open>STATE\<close> as
  they were; \<^verbatim>\<open>undefined\<close> behaves as \<^verbatim>\<open>null\<close> does.
\<close>

theorem null_config_noop:
  "setBackendAndEnvFlags T Null b w = (Inr (), w) \<and>
   setBackendAndEnvFlags T Undefined b w = (Inr (), w)"
  by (simp add: setBackendAndEnvFlags_def)

subsection \<open>The last recorded backend\<close>




section \<open>Properties of the overlay renderer\<close>

lemma draw_face_flags: "draw_face img bb sk = draw_face img bb' sk'"
  by (intro ext) (simp add: draw_face_def Let_def)

lemma draw_face_eyes:
  assumes "nth_opt (map (\<lambda>k. (kp_x k, kp_y k)) (keypoints f)) 1 = Some l"
    and "nth_opt (map (\<lambda>k. (kp_x k, kp_y k)) (keypoints f)) 2 = Some r"
  shows "draw_face img bb sk ctx f =
     (if complete img \<and> 0 < naturalWidth img
      then ctx @ [DrawImage (glassesX l r) (glassesY l r) (glassesWidth l r) (glassesHeight l r)]
      else ctx @ [BeginPath, Arc (fst l) (snd l) 3 0 (2 * pi), Arc (fst r) (snd r) 3 0 (2 * pi),
                  Fill])"
  unfolding draw_face_def Let_def assms by simp

lemma draw_face_no_eyes:
  assumes "nth_opt (map (\<lambda>k. (kp_x k, kp_y k)) (keypoints f)) 1 = None \<or>
           nth_opt (map (\<lambda>k. (kp_x k, kp_y k)) (keypoints f)) 2 = None"
  shows "draw_face img bb sk ctx f = ctx"
  using assms unfolding draw_face_def Let_def by (auto split: option.splits)

lemma draw_face_append: "draw_face img bb sk ctx f = ctx @ draw_face img bb sk [] f"
proof (cases "nth_opt (map (\<lambda>k. (kp_x k, kp_y k)) (keypoints f)) 1")
  case None
  then show ?thesis by (simp add: draw_face_no_eyes)
next
  case l: (Some l)
  show ?thesis
  proof (cases "nth_opt (map (\<lambda>k. (kp_x k, kp_y k)) (keypoints f)) 2")
    case None
    then show ?thesis by (simp add: draw_face_no_eyes)
  next
    case r: (Some r)
    show ?thesis by (simp add: draw_face_eyes [OF l r])
  qed
qed

lemma drawResults_Nil [simp]: "drawResults img ctx [] bb sk = ctx"
  by (simp add: drawResults_def)

lemma drawResults_Cons [simp]:
  "drawResults img ctx (f # fs) bb sk = drawResults img (draw_face img bb sk ctx f) fs bb sk"
  by (simp add: drawResults_def)

lemma drawResults_concat:
  "drawResults img ctx fs bb sk = ctx @ concat (map (draw_face img bb sk []) fs)"
proof (induction fs arbitrary: ctx)
  case Nil
  then show ?case by simp
next
  case (Cons f fs)
  have "drawResults img ctx (f # fs) bb sk =
          draw_face img bb sk ctx f @ concat (map (draw_face img bb sk []) fs)"
    by (simp add: Cons.IH [of "draw_face img bb sk ctx f"])
  also have "draw_face img bb sk ctx f = ctx @ draw_face img bb sk [] f"
    by (rule draw_face_append)
  finally show ?case by simp
qed

lemma draw_face_short:
  "length (keypoints f) < 3 \<Longrightarrow> draw_face img bb sk ctx f = ctx"
  by (rule draw_face_no_eyes) (simp add: nth_opt_def)

lemma sqrt_400: "sqrt 400 = 20"
proof -
  have "sqrt ((20::real) ^ 2) = \<bar>20\<bar>" by (rule real_sqrt_abs)
  then show ?thesis by simp
qed

text \<open>
  Claim C7. For a face whose keypoint at index 1 (the left eye) is (10, 10) and whose
  keypoint at index 2 (the right eye) is (30, 10), the eye distance is 20, the overlay is
  60 wide and 30 high, and the eye center is (20, 10). When the overlay image is not
  loaded, or has natural width 0, \<^verbatim>\<open>drawResults\<close> draws one path of two full circles of
  radius 3 around (10, 10) and (30, 10), fills it, and makes no \<^verbatim>\<open>drawImage\<close> call. When
  the image is loaded, the one call is \<^verbatim>\<open>drawImage\<close> with width 60 and height 30.
\<close>

theorem eye_overlay_example:
  assumes "2 < length (keypoints f)"
    and "kp_x (keypoints f ! 1) = 10" and "kp_y (keypoints f ! 1) = 10"
    and "kp_x (keypoints f ! 2) = 30" and "kp_y (keypoints f ! 2) = 10"
  shows "eyeDistance (10, 10) (30, 10) = 20 \<and>
         glassesWidth (10, 10) (30, 10) = 60 \<and>
         glassesHeight (10, 10) (30, 10) = 30 \<and>
         centerX (10, 10) (30, 10) = 20 \<and>
         centerY (10, 10) (30, 10) = 10 \<and>
         drawResults img ctx [f] bb sk =
           (if complete img \<and> 0 < naturalWidth img
            then ctx @ [DrawImage (glassesX (10, 10) (30, 10)) (glassesY (10, 10) (30, 10)) 60 30]
            else ctx @ [BeginPath, Arc 10 10 3 0 (2 * pi), Arc 30 10 3 0 (2 * pi), Fill])"
proof -
  have d: "eyeDistance (10, 10) (30, 10) = 20"
    by (simp add: eyeDistance_def sqrt_400)
  have w: "glassesWidth (10, 10) (30, 10) = 60"
    by (simp add: glassesWidth_def d)
  have h: "glassesHeight (10, 10) (30, 10) = 30"
    by (simp add: glassesHeight_def w)
  have c: "centerX (10, 10) (30, 10) = 20" "centerY (10, 10) (30, 10) = 10"
    by (simp_all add: centerX_def centerY_def)
  have l: "nth_opt (map (\<lambda>k. (kp_x k, kp_y k)) (keypoints f)) 1 = Some (10, 10)"
    using assms by (simp add: nth_opt_def)
  have r: "nth_opt (map (\<lambda>k. (kp_x k, kp_y k)) (keypoints f)) 2 = Some (30, 10)"
    using assms by (simp add: nth_opt_def)
  have "drawResults img ctx [f] bb sk =
           (if complete img \<and> 0 < naturalWidth img
            then ctx @ [DrawImage (glassesX (10, 10) (30, 10)) (glassesY (10, 10) (30, 10)) 60 30]
            else ctx @ [BeginPath, Arc 10 10 3 0 (2 * pi), Arc 30 10 3 0 (2 * pi), Fill])"
    by (simp add: draw_face_eyes [OF l r] w h)
  with d w h c show ?thesis by simp
qed

theorem eye_overlay_example_witness:
  "eyeDistance (10, 10) (30, 10) = 20 \<and>
   drawResults unloaded_image [] [example_face] True True =
     [BeginPath, Arc 10 10 3 0 (2 * pi), Arc 30 10 3 0 (2 * pi), Fill]"
  using eye_overlay_example [of example_face unloaded_image "[]" True True]
  by (simp add: example_face_def unloaded_image_def)

text \<open>
  Claim C8. A face with no keypoint at index 1 or at index 2 adds no call to the canvas,
  neither the overlay image nor the circles. \<^verbatim>\<open>drawResults\<close> has no throwing path: it
  returns the canvas for every list of faces. The faces before and after such a face are
  drawn as if it were not in the list, each from its own keypoints, in list order.
\<close>

theorem missing_eye_skipped:
  assumes "length (keypoints f) < 3"
  shows "draw_face img bb sk ctx f = ctx \<and>
         drawResults img ctx (before @ f # after) bb sk =
           drawResults img ctx (before @ after) bb sk \<and>
         drawResults img ctx (before @ f # after) bb sk =
           ctx @ concat (map (draw_face img bb sk []) before) @
                 concat (map (draw_face img bb sk []) after)"
  using draw_face_short [OF assms, of img bb sk "[]"]
  by (simp add: drawResults_concat draw_face_short [OF assms])

theorem missing_eye_skipped_witness:
  "length (keypoints short_face) < 3 \<and>
   drawResults unloaded_image [] [example_face, short_face, example_face] False False =
     drawResults unloaded_image [] [example_face, example_face] False False"
  using missing_eye_skipped [of short_face unloaded_image False False "[]" "[example_face]" "[example_face]"]
  by (simp add: short_face_def)

text \<open>
  Claim C9. The calls \<^verbatim>\<open>drawResults\<close> makes on the canvas do not depend on \<^verbatim>\<open>boundingBox\<close>
  and \<^verbatim>\<open>showKeypoints\<close>: for every canvas, every list of faces and any two choices of the
  two flags, the sequence of calls is the same.
\<close>

theorem decoration_flags_inert:
  "drawResults img ctx faces boundingBox showKeypoints =
   drawResults img ctx faces boundingBox' showKeypoints'"
  by (simp only: drawResults_def
      draw_face_flags [of img boundingBox showKeypoints boundingBox' showKeypoints'])

end
